theory Spec2Isabelle
  imports Complex_Main "HOL-Library.AList" "HOL-Library.Sublist"
begin

section \<open>Python strings and values\<close>

text \<open>
  A Python \<open>str\<close> is modelled as a \<open>string\<close>, the list of its UTF-8 bytes. The
  literals of downloader.py that are not ASCII (the ellipsis and the dash of the job
  messages) are written as their byte sequences.
\<close>

definition digit_char :: "nat \<Rightarrow> char" where
  "digit_char d = char_of (48 + d)"

function str_nat :: "nat \<Rightarrow> string" where
  "str_nat n = (if n < 10 then [digit_char n] else str_nat (n div 10) @ [digit_char (n mod 10)])"
  by pat_completeness auto
termination
  by (relation "measure id") auto

declare str_nat.simps [simp del]

definition str_int :: "int \<Rightarrow> string" where
  \<comment> \<open>\<open>str(i)\<close>, and \<open>{i}\<close> in an f-string, for an int\<close>
  "str_int i = (if i < 0 then CHR ''-'' # str_nat (nat (- i)) else str_nat (nat i))"

datatype pyval =
    PNone
  | PBool bool
  | PInt int
  | PFloat rat
  | PStr string
  | PList "string list"

text \<open>
  A Python \<open>float\<close> is modelled by the exact rational it stands for: the rounding of
  IEEE doubles is outside the model. The two float formats of the source, \<open>{x:.1f}\<close>
  and \<open>{x:.2f}\<close>, are parameters of the model (\<open>fmt_1f\<close> and \<open>fmt_2f\<close> below).
\<close>

fun truthy :: "pyval \<Rightarrow> bool" where
  "truthy PNone = False"
| "truthy (PBool b) = b"
| "truthy (PInt i) = (i \<noteq> 0)"
| "truthy (PFloat x) = (x \<noteq> 0)"
| "truthy (PStr s) = (s \<noteq> [])"
| "truthy (PList xs) = (xs \<noteq> [])"

definition str_truthy :: "string option \<Rightarrow> bool" where
  \<comment> \<open>truth value of an \<open>Optional[str]\<close>: neither \<open>None\<close> nor empty\<close>
  "str_truthy s = (case s of None \<Rightarrow> False | Some t \<Rightarrow> t \<noteq> [])"

definition startswith :: "string \<Rightarrow> string \<Rightarrow> bool" where
  "startswith s pre = prefix pre s"

definition endswith :: "string \<Rightarrow> string \<Rightarrow> bool" where
  "endswith s suf = prefix (rev suf) (rev s)"

fun contains :: "string \<Rightarrow> string \<Rightarrow> bool" where
  \<comment> \<open>\<open>needle in hay\<close>\<close>
  "contains needle [] = (needle = [])"
| "contains needle (h # hs) = (prefix needle (h # hs) \<or> contains needle hs)"

definition is_space :: "char \<Rightarrow> bool" where
  \<comment> \<open>the ASCII characters that \<open>str.strip()\<close> removes\<close>
  "is_space c \<longleftrightarrow> c \<in> set [CHR 0x09, CHR 0x0A, CHR 0x0B, CHR 0x0C, CHR 0x0D,
                         CHR 0x1C, CHR 0x1D, CHR 0x1E, CHR 0x1F, CHR 0x20]"

definition strip :: "string \<Rightarrow> string" where
  "strip s = rev (dropWhile is_space (rev (dropWhile is_space s)))"

section \<open>Helpers of downloader.py\<close>

subsection \<open>safe_folder\<close>

definition forbidden :: "char \<Rightarrow> bool" where
  \<comment> \<open>the character class \<open>[\\/:*?"<>|]\<close>\<close>
  "forbidden c \<longleftrightarrow> c \<in> set [CHR 0x5C, CHR ''/'', CHR '':'', CHR ''*'', CHR ''?'',
                           CHR 0x22, CHR ''<'', CHR ''>'', CHR ''|'']"

function sub_forbidden :: "string \<Rightarrow> string" where
  \<comment> \<open>\<open>re.sub(r'[\\/:*?"<>|]+', "_", name)\<close>: every maximal run becomes one underscore\<close>
  "sub_forbidden [] = []"
| "sub_forbidden (c # cs) =
     (if forbidden c then CHR ''_'' # sub_forbidden (dropWhile forbidden cs)
      else c # sub_forbidden cs)"
  by pat_completeness auto
termination
  by (relation "measure length") (auto simp: length_dropWhile_le less_Suc_eq_le)

definition safe_folder :: "string \<Rightarrow> string" where
  "safe_folder name =
     (let r = strip (sub_forbidden name) in if r = [] then ''Untitled'' else r)"

subsection \<open>_format_string\<close>

definition format_string :: "string \<Rightarrow> int option \<Rightarrow> string" where
  "format_string media_type height =
     (if media_type = ''audio'' then ''bestaudio/best''
      else case height of
             None \<Rightarrow> ''bv*+ba/b''
           | Some h \<Rightarrow> ''bv*[height='' @ str_int h @ '']+ba/b[height='' @ str_int h @ '']'')"

subsection \<open>strip_ansi and the humanize functions\<close>

definition is_sgr_char :: "char \<Rightarrow> bool" where
  \<comment> \<open>the character class \<open>[0-9;]\<close>\<close>
  "is_sgr_char c \<longleftrightarrow> c \<in> set ''0123456789;''"

lemma dropWhile_eq_Cons_length: "dropWhile P xs = y # ys \<Longrightarrow> length ys < length xs"
  by (metis length_dropWhile_le length_Cons Suc_le_eq)

function sub_ansi :: "string \<Rightarrow> string" where
  \<comment> \<open>\<open>re.sub(r"\x1b\[[0-9;]*m", "", s)\<close>\<close>
  "sub_ansi [] = []"
| "sub_ansi (c # cs) =
     (if c = CHR 0x1B then
        (case cs of
           b # rest \<Rightarrow>
             (if b = CHR ''[''
              then (case dropWhile is_sgr_char rest of
                      m # after \<Rightarrow> if m = CHR ''m'' then sub_ansi after else c # sub_ansi cs
                    | [] \<Rightarrow> c # sub_ansi cs)
              else c # sub_ansi cs)
         | [] \<Rightarrow> c # sub_ansi cs)
      else c # sub_ansi cs)"
  by pat_completeness auto
termination
  by (relation "measure length") (auto dest: dropWhile_eq_Cons_length)

definition strip_ansi :: "string option \<Rightarrow> string" where
  "strip_ansi s = (case s of None \<Rightarrow> [] | Some t \<Rightarrow> if t = [] then [] else sub_ansi t)"

fun humanize_bytes_loop :: "(rat \<Rightarrow> string) \<Rightarrow> string list \<Rightarrow> rat \<Rightarrow> string" where
  "humanize_bytes_loop fmt [] n = fmt n @ '' B''"
| "humanize_bytes_loop fmt (unit # units) n =
     (if n < 1024 \<or> unit = ''TiB'' then fmt n @ '' '' @ unit
      else humanize_bytes_loop fmt units (n / 1024))"

definition humanize_bytes :: "(rat \<Rightarrow> string) \<Rightarrow> rat \<Rightarrow> string" where
  "humanize_bytes fmt n = humanize_bytes_loop fmt [''B'', ''KiB'', ''MiB'', ''GiB'', ''TiB''] n"

definition humanize_bps :: "(rat \<Rightarrow> string) \<Rightarrow> rat option \<Rightarrow> string option \<Rightarrow> string" where
  "humanize_bps fmt v fallback =
     (case v of
        Some x \<Rightarrow> if x > 0 then humanize_bytes fmt x @ ''/s'' else strip_ansi fallback
      | None \<Rightarrow> strip_ansi fallback)"

definition humanize_seconds :: "rat option \<Rightarrow> string" where
  \<comment> \<open>\<open>int(max(0, sec))\<close> truncates; on a number it cannot raise\<close>
  "humanize_seconds sec =
     (case sec of
        None \<Rightarrow> []
      | Some x \<Rightarrow>
          (let s = nat \<lfloor>max 0 x\<rfloor>; h = s div 3600; m = (s mod 3600) div 60; ss = s mod 60
           in if h \<noteq> 0 then str_nat h @ ''h '' @ str_nat m @ ''m '' @ str_nat ss @ ''s''
              else if m \<noteq> 0 then str_nat m @ ''m '' @ str_nat ss @ ''s''
              else str_nat ss @ ''s''))"

subsection \<open>os.path on strings (POSIX)\<close>

definition isabs :: "string \<Rightarrow> bool" where
  "isabs s = startswith s ''/''"

definition path_join :: "string \<Rightarrow> string \<Rightarrow> string" where
  \<comment> \<open>\<open>os.path.join(a, b)\<close>\<close>
  "path_join a b =
     (if startswith b ''/'' then b
      else if a = [] \<or> endswith a ''/'' then a @ b
      else a @ ''/'' @ b)"

definition basename :: "string \<Rightarrow> string" where
  "basename s = rev (takeWhile (\<lambda>c. c \<noteq> CHR ''/'') (rev s))"

definition rstrip_sep :: "string \<Rightarrow> string" where
  \<comment> \<open>\<open>s.rstrip('/')\<close>\<close>
  "rstrip_sep s = rev (dropWhile (\<lambda>c. c = CHR ''/'') (rev s))"

definition expanduser :: "(string \<Rightarrow> string option) \<Rightarrow> string \<Rightarrow> string" where
  \<comment> \<open>\<open>os.path.expanduser\<close>; \<open>homes name\<close> is the home directory of user \<open>name\<close>
      (the empty name is the current user), \<open>None\<close> when it is unknown\<close>
  "expanduser homes s =
     (if \<not> startswith s ''~'' then s
      else
        (let name = takeWhile (\<lambda>c. c \<noteq> CHR ''/'') (tl s);
             rest = dropWhile (\<lambda>c. c \<noteq> CHR ''/'') (tl s)
         in case homes name of
              None \<Rightarrow> s
            | Some userhome \<Rightarrow>
                (let r = rstrip_sep userhome @ rest in if r = [] then ''/'' else r)))"

definition splitext :: "string \<Rightarrow> string \<times> string" where
  \<comment> \<open>\<open>os.path.splitext\<close>: the extension starts at the last dot of the last component,
      unless only dots precede it there\<close>
  "splitext p =
     (let tail = basename p;
          hd_part = take (length p - length tail) p;
          suf = rev (takeWhile (\<lambda>c. c \<noteq> CHR ''.'') (rev tail))
      in if length suf = length tail then (p, [])
         else
           (let pre = take (length tail - length suf - 1) tail
            in if list_all (\<lambda>c. c = CHR ''.'') pre then (p, [])
               else (hd_part @ pre, CHR ''.'' # suf)))"

section \<open>The filesystem\<close>

text \<open>
  The filesystem is a finite table from absolute paths (lists of entry names, the root
  being \<open>[]\<close>) to nodes: a regular file with its content, or a directory. There are no
  symbolic links and no permissions: an operation fails only for a structural reason
  (a missing entry, a file where a directory is needed). A path string is read
  component by component, as the kernel does; a relative string starts at \<open>cwd\<close>.
\<close>

datatype node = File string | Dir

type_synonym path = "string list"

type_synonym filesystem = "(path \<times> node) list"

datatype exn =
    KeyboardInterrupt string
  | DownloadError string
  | OtherException string

definition fs_lookup :: "filesystem \<Rightarrow> path \<Rightarrow> node option" where
  "fs_lookup fs p = map_of fs p"

definition is_dir :: "filesystem \<Rightarrow> path \<Rightarrow> bool" where
  "is_dir fs p \<longleftrightarrow> p = [] \<or> fs_lookup fs p = Some Dir"

definition is_file :: "filesystem \<Rightarrow> path \<Rightarrow> bool" where
  "is_file fs p \<longleftrightarrow> (case fs_lookup fs p of Some (File c) \<Rightarrow> True | _ \<Rightarrow> False)"

definition exist :: "filesystem \<Rightarrow> path \<Rightarrow> bool" where
  "exist fs p \<longleftrightarrow> p = [] \<or> fs_lookup fs p \<noteq> None"

definition files_in :: "filesystem \<Rightarrow> path \<Rightarrow> string list" where
  \<comment> \<open>the names of the regular files of directory \<open>P\<close>, in the order of the table\<close>
  "files_in fs P =
     map last (filter (\<lambda>p. p \<noteq> [] \<and> butlast p = P \<and> is_file fs p) (remdups (map fst fs)))"

definition dirs_in :: "filesystem \<Rightarrow> path \<Rightarrow> string list" where
  "dirs_in fs P =
     map last (filter (\<lambda>p. p \<noteq> [] \<and> butlast p = P \<and> fs_lookup fs p = Some Dir)
                 (remdups (map fst fs)))"

definition put :: "filesystem \<Rightarrow> path \<Rightarrow> node \<Rightarrow> filesystem" where
  "put fs p n = AList.update p n fs"

definition del :: "filesystem \<Rightarrow> path \<Rightarrow> filesystem" where
  "del fs p = AList.delete p fs"

definition rmtree :: "filesystem \<Rightarrow> path \<Rightarrow> filesystem" where
  \<comment> \<open>\<open>shutil.rmtree(P, ignore_errors=True)\<close>\<close>
  "rmtree fs P = filter (\<lambda>(p, n). \<not> prefix P p) fs"

fun split_sep :: "string \<Rightarrow> string list" where
  \<comment> \<open>\<open>s.split('/')\<close>\<close>
  "split_sep [] = [[]]"
| "split_sep (c # cs) =
     (if c = CHR ''/'' then [] # split_sep cs
      else (case split_sep cs of x # xs \<Rightarrow> (c # x) # xs | [] \<Rightarrow> [[c]]))"

fun namei :: "filesystem \<Rightarrow> path \<Rightarrow> string list \<Rightarrow> path option" where
  \<comment> \<open>path lookup: every component but the last must lead to a directory\<close>
  "namei fs cur [] = Some cur"
| "namei fs cur (c # cs) =
     (if \<not> is_dir fs cur then None
      else if c = [] \<or> c = ''.'' then namei fs cur cs
      else if c = ''..'' then namei fs (butlast cur) cs
      else namei fs (cur @ [c]) cs)"

definition resolve :: "path \<Rightarrow> filesystem \<Rightarrow> string \<Rightarrow> path option" where
  "resolve cwd fs s =
     (if s = [] then None else namei fs (if isabs s then [] else cwd) (split_sep s))"

definition os_path_isdir :: "path \<Rightarrow> filesystem \<Rightarrow> string \<Rightarrow> path option" where
  \<comment> \<open>\<open>os.path.isdir(s)\<close>: \<open>Some\<close> of the directory when it is one\<close>
  "os_path_isdir cwd fs s =
     (case resolve cwd fs s of
        Some p \<Rightarrow> if is_dir fs p then Some p else None
      | None \<Rightarrow> None)"

fun mkdirs :: "filesystem \<Rightarrow> path \<Rightarrow> string list \<Rightarrow> (exn + path) \<times> filesystem" where
  "mkdirs fs cur [] = (Inr cur, fs)"
| "mkdirs fs cur (c # cs) =
     (if c = [] \<or> c = ''.'' then mkdirs fs cur cs
      else if c = ''..'' then mkdirs fs (butlast cur) cs
      else (case fs_lookup fs (cur @ [c]) of
              None \<Rightarrow> mkdirs (put fs (cur @ [c]) Dir) (cur @ [c]) cs
            | Some Dir \<Rightarrow> mkdirs fs (cur @ [c]) cs
            | Some (File x) \<Rightarrow> (Inl (OtherException ''OSError''), fs)))"

definition makedirs :: "path \<Rightarrow> filesystem \<Rightarrow> string \<Rightarrow> (exn + path) \<times> filesystem" where
  \<comment> \<open>\<open>os.makedirs(s, exist_ok=True)\<close>: the directory made, or the error raised; the
      directories made before an error stay\<close>
  "makedirs cwd fs s =
     (if s = [] then (Inl (OtherException ''FileNotFoundError''), fs)
      else mkdirs fs (if isabs s then [] else cwd) (split_sep s))"

definition shutil_move :: "filesystem \<Rightarrow> path \<Rightarrow> path \<Rightarrow> exn option \<times> filesystem" where
  \<comment> \<open>\<open>shutil.move(src, dst)\<close> for a regular file \<open>src\<close>\<close>
  "shutil_move fs src dst =
     (case fs_lookup fs src of
        Some (File c) \<Rightarrow>
          (let real_dst = (if is_dir fs dst then dst @ [last src] else dst)
           in if is_dir fs dst \<and> exist fs real_dst
              then (Some (OtherException ''shutil.Error''), fs)
              else if real_dst \<noteq> [] \<and> is_dir fs (butlast real_dst) \<and> \<not> is_dir fs real_dst
              then (None, put (del fs src) real_dst (File c))
              else (Some (OtherException ''OSError''), fs))
      | _ \<Rightarrow> (Some (OtherException ''OSError''), fs))"

definition shutil_copy2 :: "filesystem \<Rightarrow> path \<Rightarrow> path \<Rightarrow> exn option \<times> filesystem" where
  "shutil_copy2 fs src dst =
     (case fs_lookup fs src of
        Some (File c) \<Rightarrow>
          (let real_dst = (if is_dir fs dst then dst @ [last src] else dst)
           in if real_dst \<noteq> [] \<and> is_dir fs (butlast real_dst) \<and> \<not> is_dir fs real_dst
                 \<and> real_dst \<noteq> src
              then (None, put fs real_dst (File c))
              else (Some (OtherException ''OSError''), fs))
      | _ \<Rightarrow> (Some (OtherException ''OSError''), fs))"

definition os_remove :: "filesystem \<Rightarrow> path \<Rightarrow> exn option \<times> filesystem" where
  "os_remove fs p =
     (if is_file fs p then (None, del fs p) else (Some (OtherException ''OSError''), fs))"

definition write_file :: "filesystem \<Rightarrow> path \<Rightarrow> string \<Rightarrow> filesystem" where
  \<comment> \<open>the downloader writes a file, making the directories above it\<close>
  "write_file fs p c =
     (if p = [] then fs
      else (case mkdirs fs [] (butlast p) of
              (Inr d, fs1) \<Rightarrow> if is_dir fs1 p then fs1 else put fs1 p (File c)
            | (Inl e, fs1) \<Rightarrow> fs1))"

lemma dirs_in_key: "d \<in> set (dirs_in fs P) \<Longrightarrow> P @ [d] \<in> fst ` set fs"
  by (auto simp: dirs_in_def) (metis append_butlast_last_id image_eqI fst_conv)

function walk_dirs :: "filesystem \<Rightarrow> path \<Rightarrow> path list" where
  \<comment> \<open>the directories \<open>os.walk(P)\<close> visits, top down and depth first\<close>
  "walk_dirs fs P = P # concat (map (\<lambda>d. walk_dirs fs (P @ [d])) (dirs_in fs P))"
  by pat_completeness auto

termination
proof (relation "measure (\<lambda>(fs, P). card {p \<in> fst ` set fs. strict_prefix P p})", goal_cases)
  case 1
  show ?case by simp
next
  case (2 fs P d)
  let ?A = "{p \<in> fst ` set fs. strict_prefix (P @ [d]) p}"
  let ?B = "{p \<in> fst ` set fs. strict_prefix P p}"
  have "P @ [d] \<in> ?B" using dirs_in_key [OF 2] by (simp add: strict_prefix_def)
  moreover have "P @ [d] \<notin> ?A" by simp
  moreover have "?A \<subseteq> ?B"
    by (auto simp: strict_prefix_def) (meson prefix_order.dual_order.trans prefixI)
  ultimately have "?A \<subset> ?B" by blast
  moreover have "finite ?B" by simp
  ultimately show ?case by (simp add: psubset_card_mono)
qed

declare walk_dirs.simps [simp del]

section \<open>The environment and the job registry\<close>

text \<open>
  A job is the Python dict \<open>create_job\<close> builds: an association list from keys to
  values, in insertion order. \<open>JOBS\<close> maps job identifiers to jobs. What the program
  takes from outside is gathered in \<open>env\<close>: the float formats, the home directories
  \<open>expanduser\<close> reads, the working directory, the module constants computed at import
  time, and the behaviour of yt-dlp, the external collaborator.
\<close>

type_synonym job = "(string \<times> pyval) list"

type_synonym registry = "string \<Rightarrow> job option"

definition dget :: "job \<Rightarrow> string \<Rightarrow> pyval" where
  \<comment> \<open>\<open>job.get(k)\<close>\<close>
  "dget job k = (case map_of job k of Some v \<Rightarrow> v | None \<Rightarrow> PNone)"

definition dset :: "string \<Rightarrow> pyval \<Rightarrow> job \<Rightarrow> job" where
  \<comment> \<open>\<open>job[k] = v\<close>\<close>
  "dset k v job = AList.update k v job"

definition ellipsis :: string where
  \<comment> \<open>U+2026 in UTF-8\<close>
  "ellipsis = [CHR 0xE2, CHR 0x80, CHR 0xA6]"

definition emdash :: string where
  \<comment> \<open>U+2014 in UTF-8\<close>
  "emdash = [CHR 0xE2, CHR 0x80, CHR 0x94]"

record info =
  info_entries :: bool
  info_title :: "string option"

record hook_dict =
  d_status :: "string option"
  d_total_bytes :: "rat option"
  d_total_bytes_estimate :: "rat option"
  d_downloaded_bytes :: "rat option"
  d_speed :: "rat option"
  d_speed_str :: "string option"
  d_eta :: "rat option"
  d_eta_str :: "string option"
  d_filename :: "string option"

datatype step =
    Hook hook_dict
  | CancelRequest
  | WriteFile "string list" string

record ydl_run =
  run_steps :: "step list"
  run_outcome :: "exn option"

type_synonym postprocessors = "(string \<times> pyval) list option"

record env =
  fmt_1f :: "rat \<Rightarrow> string"
  fmt_2f :: "rat \<Rightarrow> string"
  user_homes :: "string \<Rightarrow> string option"
  work_cwd :: path
  storage_dir :: string
  default_vid_bucket :: string
  default_aud_bucket :: string
  extract_flat :: "string \<Rightarrow> exn + info option"
  extract_title :: "string \<Rightarrow> exn + string option"
  ydl_download :: "nat \<Rightarrow> string \<Rightarrow> string \<Rightarrow> ydl_run"

text \<open>
  \<open>extract_flat url\<close> is the flat \<open>extract_info\<close> of \<open>probe_url_meta\<close> (\<open>info_entries\<close>
  says that the info has a non-empty \<open>entries\<close>), \<open>extract_title u\<close> the \<open>title\<close> of the
  per-item \<open>extract_info\<close>, and \<open>ydl_download n url fmt\<close> what the \<open>n\<close>-th call of
  \<open>ydl.download\<close> does: the progress hook calls it makes and the files it writes, in
  order, then how it ends. A \<open>CancelRequest\<close> step is a \<open>cancel_job\<close> of another thread
  arriving at that point.

  The world is the registry, the filesystem and two logs that only record what
  happened: the calls of \<open>ydl.download\<close> (url, format, postprocessors) and the items the
  loop of \<open>_download_urls\<close> has started (\<open>currentItem\<close>, url).
\<close>

record world =
  JOBS :: registry
  disk :: filesystem
  attempts :: "(string \<times> string \<times> postprocessors) list"
  started :: "(nat \<times> string) list"

subsection \<open>_resolve_root_dir\<close>

definition resolve_root_dir ::
  "env \<Rightarrow> filesystem \<Rightarrow> string option \<Rightarrow> string \<Rightarrow> (exn + string) \<times> filesystem" where
  "resolve_root_dir env fs0 user_dir media_type =
     (let root =
        (case user_dir of
           Some u0 \<Rightarrow>
             if u0 \<noteq> [] then
               (let u = expanduser (user_homes env) u0
                in if isabs u then u else path_join (storage_dir env) u)
             else if media_type = ''video'' then default_vid_bucket env
             else default_aud_bucket env
         | None \<Rightarrow>
             if media_type = ''video'' then default_vid_bucket env
             else default_aud_bucket env)
      in case makedirs (work_cwd env) fs0 root of
           (Inr p, fs1) \<Rightarrow> (Inr root, fs1)
         | (Inl e, fs1) \<Rightarrow>
             (case makedirs (work_cwd env) fs1 (storage_dir env) of
                (Inr p, fs2) \<Rightarrow> (Inr (storage_dir env), fs2)
              | (Inl e2, fs2) \<Rightarrow> (Inl e2, fs2)))"

subsection \<open>create_job, cancel_job, get_job\<close>

definition new_job ::
  "string \<Rightarrow> string \<Rightarrow> int \<Rightarrow> string \<Rightarrow> string \<Rightarrow> int option \<Rightarrow> string option
     \<Rightarrow> string list option \<Rightarrow> job" where
  \<comment> \<open>the dict literal of \<open>create_job\<close>\<close>
  "new_job job_id root_dir now url media_type video_height audio_bitrate selected_urls =
     [(''jobId'', PStr job_id),
      (''url'', PStr url),
      (''mediaType'', PStr media_type),
      (''videoHeight'', (case video_height of None \<Rightarrow> PNone | Some h \<Rightarrow> PInt h)),
      (''audioBitrate'',
         PStr (case audio_bitrate of None \<Rightarrow> ''best'' | Some b \<Rightarrow> if b = [] then ''best'' else b)),
      (''selectedUrls'', PList (case selected_urls of None \<Rightarrow> [] | Some us \<Rightarrow> us)),
      (''rootDir'', PStr root_dir),
      (''finalDir'', PNone),
      (''status'', PStr ''queued''),
      (''progress'', PFloat 0),
      (''percent'', PStr ''0%''),
      (''eta'', PStr []),
      (''speed'', PStr []),
      (''message'', PStr []),
      (''_cancel'', PBool False),
      (''kind'', PNone),
      (''title'', PStr []),
      (''currentItem'', PInt 0),
      (''totalItems'', PInt 0),
      (''currentTitle'', PStr []),
      (''created'', PInt now)]"

definition create_job ::
  "env \<Rightarrow> string \<Rightarrow> int \<Rightarrow> world \<Rightarrow> string \<Rightarrow> string \<Rightarrow> int option \<Rightarrow> string option
     \<Rightarrow> string list option \<Rightarrow> string option \<Rightarrow> (exn + string) \<times> world" where
  \<comment> \<open>\<open>job_id\<close> is the \<open>uuid4().hex[:12]\<close> drawn and \<open>now\<close> the \<open>int(time.time())\<close> read;
      the worker thread it starts is \<open>download_worker\<close> below\<close>
  "create_job env job_id now w url media_type video_height audio_bitrate selected_urls output_dir =
     (case resolve_root_dir env (disk w) output_dir media_type of
        (Inl e, fs1) \<Rightarrow> (Inl e, w\<lparr>disk := fs1\<rparr>)
      | (Inr root_dir, fs1) \<Rightarrow>
          (Inr job_id,
           w\<lparr>disk := fs1,
             JOBS := (JOBS w)(job_id \<mapsto>
               new_job job_id root_dir now url media_type video_height audio_bitrate
                 selected_urls)\<rparr>))"

definition cancel_job :: "string \<Rightarrow> registry \<Rightarrow> bool \<times> registry" where
  "cancel_job job_id J =
     (case J job_id of
        None \<Rightarrow> (False, J)
      | Some job \<Rightarrow>
          if job = [] then (False, J)
          else (True,
                J(job_id \<mapsto> dset ''message'' (PStr (''Cancel requested'' @ ellipsis))
                                (dset ''_cancel'' (PBool True) job))))"

definition get_job :: "string \<Rightarrow> registry \<Rightarrow> job option" where
  "get_job job_id J = J job_id"

subsection \<open>_progress_hook\<close>

definition num_or :: "rat option \<Rightarrow> rat \<Rightarrow> rat" where
  \<comment> \<open>\<open>a or b\<close> for an optional number \<open>a\<close>\<close>
  "num_or a b = (case a of None \<Rightarrow> b | Some x \<Rightarrow> if x = 0 then b else x)"

definition float_of :: "pyval option \<Rightarrow> rat option" where
  \<comment> \<open>the number \<open>job.get('progress', 0.0)\<close> formats, \<open>None\<close> when the format raises\<close>
  "float_of v =
     (case v of
        None \<Rightarrow> Some 0
      | Some (PFloat x) \<Rightarrow> Some x
      | Some (PInt i) \<Rightarrow> Some (of_int i)
      | Some (PBool b) \<Rightarrow> Some (if b then 1 else 0)
      | Some _ \<Rightarrow> None)"

definition hook_body :: "env \<Rightarrow> hook_dict \<Rightarrow> job \<Rightarrow> exn option \<times> job" where
  "hook_body env d job =
     (if d_status d = Some ''downloading'' then
        (let j1 = dset ''status'' (PStr ''running'') job;
             total = num_or (d_total_bytes d) (num_or (d_total_bytes_estimate d) 0);
             done = num_or (d_downloaded_bytes d) 0;
             j2 = (if total \<noteq> 0 then dset ''progress'' (PFloat (done / total * 100)) j1 else j1)
         in case float_of (map_of j2 ''progress'') of
              None \<Rightarrow> (Some (OtherException ''ValueError''), j2)
            | Some x \<Rightarrow>
                (let j3 = dset ''percent'' (PStr (fmt_1f env x @ ''%'')) j2;
                     j4 = dset ''speed'' (PStr (humanize_bps (fmt_2f env) (d_speed d) (d_speed_str d))) j3;
                     e1 = humanize_seconds (d_eta d);
                     j5 = dset ''eta'' (PStr (if e1 \<noteq> [] then e1 else strip_ansi (d_eta_str d))) j4
                 in (None, j5)))
      else if d_status d = Some ''finished'' then
        (None,
         dset ''message''
           (PStr (''Processing '' @ basename (case d_filename d of None \<Rightarrow> [] | Some f \<Rightarrow> f)
                    @ ellipsis)) job)
      else (None, job))"

definition progress_hook ::
  "env \<Rightarrow> string \<Rightarrow> hook_dict \<Rightarrow> registry \<Rightarrow> exn option \<times> registry" where
  "progress_hook env job_id d J =
     (case J job_id of
        None \<Rightarrow> (None, J)
      | Some job \<Rightarrow>
          if job = [] then (None, J)
          else (case hook_body env d job of
                  (Some e, job') \<Rightarrow> (Some e, J(job_id \<mapsto> job'))
                | (None, job') \<Rightarrow>
                    (if truthy (dget job' ''_cancel'')
                     then Some (KeyboardInterrupt ''Canceled by user'') else None,
                     J(job_id \<mapsto> job'))))"

section \<open>The download engine\<close>

record meta =
  meta_kind :: string
  meta_title :: string

definition probe_url_meta :: "env \<Rightarrow> string \<Rightarrow> exn + meta" where
  \<comment> \<open>the \<open>kind\<close> and \<open>title\<close> of the result; the heights, thumbnail and entries of the
      result are not read by the worker and are left out. With \<open>ignoreerrors\<close> the
      extraction can return \<open>None\<close>, on which \<open>"entries" in info\<close> raises a TypeError\<close>
  "probe_url_meta env url =
     (case extract_flat env url of
        Inl (DownloadError m) \<Rightarrow> Inl (DownloadError ''Video or playlist unavailable'')
      | Inl e \<Rightarrow> Inl e
      | Inr None \<Rightarrow> Inl (OtherException ''argument of type NoneType is not iterable'')
      | Inr (Some i) \<Rightarrow>
          Inr \<lparr>meta_kind = (if info_entries i then ''playlist'' else ''video''),
               meta_title = (case info_title i of
                               None \<Rightarrow> ''Untitled''
                             | Some t \<Rightarrow> if t = [] then ''Untitled'' else t)\<rparr>)"

definition upd_job :: "string \<Rightarrow> (job \<Rightarrow> job) \<Rightarrow> world \<Rightarrow> world" where
  \<comment> \<open>a write to the dict the worker holds, which is the one in \<open>JOBS\<close>\<close>
  "upd_job job_id f w =
     (case JOBS w job_id of
        None \<Rightarrow> w
      | Some job \<Rightarrow> w\<lparr>JOBS := (JOBS w)(job_id \<mapsto> f job)\<rparr>)"

definition the_job :: "world \<Rightarrow> string \<Rightarrow> job" where
  "the_job w job_id = (case JOBS w job_id of None \<Rightarrow> [] | Some job \<Rightarrow> job)"

fun exec_steps ::
  "env \<Rightarrow> string \<Rightarrow> path option \<Rightarrow> step list \<Rightarrow> exn option \<Rightarrow> world \<Rightarrow> exn option \<times> world" where
  "exec_steps env job_id wd [] out w = (out, w)"
| "exec_steps env job_id wd (Hook d # rest) out w =
     (case progress_hook env job_id d (JOBS w) of
        (Some e, J) \<Rightarrow> (Some e, w\<lparr>JOBS := J\<rparr>)
      | (None, J) \<Rightarrow> exec_steps env job_id wd rest out (w\<lparr>JOBS := J\<rparr>))"
| "exec_steps env job_id wd (CancelRequest # rest) out w =
     exec_steps env job_id wd rest out (w\<lparr>JOBS := snd (cancel_job job_id (JOBS w))\<rparr>)"
| "exec_steps env job_id wd (WriteFile rel c # rest) out w =
     exec_steps env job_id wd rest out
       (w\<lparr>disk := (case wd of None \<Rightarrow> disk w | Some W \<Rightarrow> write_file (disk w) (W @ rel) c)\<rparr>)"

definition ydl_call ::
  "env \<Rightarrow> string \<Rightarrow> string \<Rightarrow> string \<Rightarrow> string \<Rightarrow> postprocessors \<Rightarrow> world
     \<Rightarrow> exn option \<times> world" where
  \<comment> \<open>\<open>with YoutubeDL(opts) as ydl: ydl.download([url])\<close>, the hook being
      \<open>_progress_hook(job_id)\<close> and the output template lying in \<open>work_dir\<close>\<close>
  "ydl_call env job_id work_dir url fmt pp w =
     (let run = ydl_download env (length (attempts w)) url fmt;
          w1 = w\<lparr>attempts := attempts w @ [(url, fmt, pp)]\<rparr>
      in exec_steps env job_id (resolve (work_cwd env) (disk w) work_dir)
           (run_steps run) (run_outcome run) w1)"

definition try_download_one ::
  "env \<Rightarrow> string \<Rightarrow> string \<Rightarrow> int option \<Rightarrow> postprocessors \<Rightarrow> string \<Rightarrow> string \<Rightarrow> world
     \<Rightarrow> exn option \<times> world" where
  "try_download_one env url media_type height pp job_id work_dir w =
     (case ydl_call env job_id work_dir url (format_string media_type height) pp w of
        (None, w1) \<Rightarrow> (None, w1)
      | (Some (DownloadError m), w1) \<Rightarrow>
          if \<not> contains ''Requested format is not available'' m
          then (Some (DownloadError m), w1)
          else ydl_call env job_id work_dir url (format_string media_type None) pp w1
      | (Some e, w1) \<Rightarrow> (Some e, w1))"

fun download_loop ::
  "env \<Rightarrow> string \<Rightarrow> string \<Rightarrow> int option \<Rightarrow> postprocessors \<Rightarrow> string \<Rightarrow> nat \<Rightarrow> nat
     \<Rightarrow> string list \<Rightarrow> world \<Rightarrow> exn option \<times> world" where
  \<comment> \<open>\<open>for i, u in enumerate(urls, start=1)\<close>\<close>
  "download_loop env job_id media_type height pp work_dir n_total i [] w = (None, w)"
| "download_loop env job_id media_type height pp work_dir n_total i (u # us) w =
     (let w1 = upd_job job_id
                 (\<lambda>j. dset ''message''
                         (PStr (''Downloading item '' @ str_nat i @ ''/'' @ str_nat n_total @ ellipsis))
                         (dset ''currentItem'' (PInt (int i)) j))
                 (w\<lparr>started := started w @ [(i, u)]\<rparr>)
      in case (case extract_title env u of
                 Inr t \<Rightarrow> Inr (case t of None \<Rightarrow> [] | Some s \<Rightarrow> s)
               | Inl (KeyboardInterrupt m) \<Rightarrow> Inl (KeyboardInterrupt m)
               | Inl e \<Rightarrow> Inr []) of
           Inl e \<Rightarrow> (Some e, w1)
         | Inr title \<Rightarrow>
             (case try_download_one env u media_type height pp job_id work_dir
                     (upd_job job_id (dset ''currentTitle'' (PStr title)) w1) of
                (Some e, w3) \<Rightarrow> (Some e, w3)
              | (None, w3) \<Rightarrow>
                  if truthy (dget (the_job w3 job_id) ''_cancel'') then (None, w3)
                  else download_loop env job_id media_type height pp work_dir n_total (Suc i) us w3))"

definition download_urls ::
  "env \<Rightarrow> string \<Rightarrow> string list \<Rightarrow> string \<Rightarrow> int option \<Rightarrow> string \<Rightarrow> world
     \<Rightarrow> exn option \<times> world" where
  "download_urls env job_id urls media_type height work_dir w =
     (case JOBS w job_id of
        None \<Rightarrow> (Some (OtherException ''KeyError''), w)
      | Some job \<Rightarrow>
          (case makedirs (work_cwd env) (disk w) work_dir of
             (Inl e, fs1) \<Rightarrow> (Some e, w\<lparr>disk := fs1\<rparr>)
           | (Inr p, fs1) \<Rightarrow>
               (let pp = (if media_type = ''audio''
                          then Some ([(''key'', PStr ''FFmpegExtractAudio''),
                                      (''preferredcodec'', PStr ''mp3'')]
                                     @ (let abitrate = dget job ''audioBitrate''
                                        in if truthy abitrate \<and> abitrate \<noteq> PStr ''best''
                                           then [(''preferredquality'', abitrate)] else []))
                          else None);
                    total = length urls;
                    w1 = upd_job job_id (dset ''totalItems'' (PInt (int total))) (w\<lparr>disk := fs1\<rparr>)
                in download_loop env job_id media_type height pp work_dir total 1 urls w1)))"

section \<open>The staging reconciler\<close>

definition disamb :: "string \<Rightarrow> string \<Rightarrow> nat \<Rightarrow> string" where
  \<comment> \<open>\<open>f"{base} ({n}){ext}"\<close>\<close>
  "disamb base ext n = base @ '' ('' @ str_nat n @ '')'' @ ext"

definition digits_value :: "string \<Rightarrow> nat" where
  "digits_value s = foldl (\<lambda>a c. 10 * a + (of_char c - 48)) 0 s"

lemma digits_value_str_nat: "digits_value (str_nat n) = n"
proof (induction n rule: str_nat.induct)
  case (1 n)
  show ?case
  proof (cases "n < 10")
    case True
    then show ?thesis
      by (subst str_nat.simps) (simp add: digits_value_def digit_char_def)
  next
    case False
    have "n mod 10 < 10" by simp
    then have d: "of_char (digit_char (n mod 10)) = 48 + n mod 10"
      by (simp add: digit_char_def)
    from False have "digits_value (str_nat n) = 10 * digits_value (str_nat (n div 10)) + n mod 10"
      by (subst str_nat.simps) (simp add: digits_value_def d)
    with 1 False show ?thesis by simp
  qed
qed

lemma inj_str_nat: "inj str_nat"
  by (rule inj_on_inverseI [where g = digits_value]) (rule digits_value_str_nat)

lemma inj_disamb: "inj (\<lambda>n. dst_dir @ [disamb base ext n])"
  by (rule injI) (simp add: disamb_def inj_str_nat [THEN injD])

lemma finite_taken: "finite {m. exist fs (dst_dir @ [disamb base ext m])}"
proof -
  have "{m. exist fs (dst_dir @ [disamb base ext m])}
          \<subseteq> (\<lambda>n. dst_dir @ [disamb base ext n]) -` (fst ` set fs)"
    by (auto simp: exist_def fs_lookup_def map_of_eq_None_iff)
  moreover have "finite ((\<lambda>n. dst_dir @ [disamb base ext n]) -` (fst ` set fs))"
    by (rule finite_vimageI [OF _ inj_disamb]) simp
  ultimately show ?thesis by (rule finite_subset)
qed

function unique_dst_loop ::
  "filesystem \<Rightarrow> path \<Rightarrow> string \<Rightarrow> string \<Rightarrow> path \<Rightarrow> nat \<Rightarrow> path" where
  \<comment> \<open>\<open>while os.path.exists(candidate): candidate = ...; n += 1\<close>\<close>
  "unique_dst_loop fs dst_dir base ext candidate n =
     (if exist fs candidate
      then unique_dst_loop fs dst_dir base ext (dst_dir @ [disamb base ext n]) (Suc n)
      else candidate)"
  by pat_completeness auto
termination
proof (relation "measure (\<lambda>(fs, dst_dir, base, ext, candidate, n).
          card {m. n \<le> m \<and> exist fs (dst_dir @ [disamb base ext m])}
          + (if exist fs candidate then 1 else 0))", goal_cases)
  case 1
  show ?case by simp
next
  case (2 fs dst_dir base ext candidate n)
  let ?T = "\<lambda>k. {m. k \<le> m \<and> exist fs (dst_dir @ [disamb base ext m])}"
  have fin: "finite (?T n)"
    by (rule finite_subset [OF _ finite_taken [of fs dst_dir base ext]]) auto
  show ?case
  proof (cases "exist fs (dst_dir @ [disamb base ext n])")
    case True
    have "?T n = insert n (?T (Suc n))" using True by (auto simp: le_Suc_eq)
    moreover have "n \<notin> ?T (Suc n)" by simp
    moreover have "finite (?T (Suc n))"
      by (rule finite_subset [OF _ fin]) auto
    ultimately have "card (?T n) = Suc (card (?T (Suc n)))" by simp
    with 2 True show ?thesis by simp
  next
    case False
    have "?T (Suc n) \<subseteq> ?T n" by auto
    then have "card (?T (Suc n)) \<le> card (?T n)" by (rule card_mono [OF fin])
    with 2 False show ?thesis by simp
  qed
qed

declare unique_dst_loop.simps [simp del]

definition unique_dst :: "filesystem \<Rightarrow> path \<Rightarrow> string \<Rightarrow> path" where
  \<comment> \<open>\<open>_unique_dst(dst_dir, filename)\<close> for the name of a directory entry;
      \<open>os.path.join(dst_dir, name)\<close> is then the entry \<open>name\<close> of \<open>dst_dir\<close>\<close>
  "unique_dst fs dst_dir filename =
     (case splitext filename of
        (base, ext) \<Rightarrow> unique_dst_loop fs dst_dir base ext (dst_dir @ [filename]) 1)"

fun move_files :: "path \<Rightarrow> path \<Rightarrow> string list \<Rightarrow> filesystem \<Rightarrow> exn option \<times> filesystem" where
  \<comment> \<open>\<open>for f in files\<close>, in the directory \<open>root\<close> of the walk, here \<open>rootp\<close>\<close>
  "move_files final_dir rootp [] fs = (None, fs)"
| "move_files final_dir rootp (f # files) fs =
     (if endswith f ''.part'' \<or> endswith f ''.ytdl'' then move_files final_dir rootp files fs
      else
        (let src = rootp @ [f];
             dst = unique_dst fs final_dir f
         in case mkdirs fs [] (butlast dst) of
              (Inl e, fs1) \<Rightarrow> (Some e, fs1)
            | (Inr d, fs1) \<Rightarrow>
                (case shutil_move fs1 src dst of
                   (None, fs2) \<Rightarrow> move_files final_dir rootp files fs2
                 | (Some e, fs2) \<Rightarrow>
                     (case shutil_copy2 fs2 src dst of
                        (Some e2, fs3) \<Rightarrow> (Some e2, fs3)
                      | (None, fs3) \<Rightarrow>
                          move_files final_dir rootp files (snd (os_remove fs3 src))))))"

fun walk_loop :: "path \<Rightarrow> path list \<Rightarrow> filesystem \<Rightarrow> exn option \<times> filesystem" where
  \<comment> \<open>\<open>for root, _, files in os.walk(work_dir)\<close>: the files of a directory are listed
      when the walk reaches it\<close>
  "walk_loop final_dir [] fs = (None, fs)"
| "walk_loop final_dir (rootp # roots) fs =
     (case move_files final_dir rootp (files_in fs rootp) fs of
        (Some e, fs1) \<Rightarrow> (Some e, fs1)
      | (None, fs1) \<Rightarrow> walk_loop final_dir roots fs1)"

text \<open>
  \<open>os.walk\<close> lists a directory when it reaches it. The body of the loop makes and removes
  no directory (\<open>os.path.dirname(dst)\<close> is \<open>final_dir\<close>, which exists by then), so the
  directories reached are those of the tree as it is after \<open>os.makedirs(final_dir)\<close>.
\<close>

definition move_completed_to_final ::
  "path \<Rightarrow> filesystem \<Rightarrow> string option \<Rightarrow> string option \<Rightarrow> exn option \<times> filesystem" where
  "move_completed_to_final cwd fs work_dir final_dir =
     (if \<not> str_truthy work_dir \<or> \<not> str_truthy final_dir then (None, fs)
      else
        (case os_path_isdir cwd fs (the work_dir) of
           None \<Rightarrow> (None, fs)
         | Some W \<Rightarrow>
             (case makedirs cwd fs (the final_dir) of
                (Inl e, fs1) \<Rightarrow> (Some e, fs1)
              | (Inr F, fs1) \<Rightarrow>
                  (case walk_loop F (walk_dirs fs1 W) fs1 of
                     (Some e, fs2) \<Rightarrow> (Some e, fs2)
                   | (None, fs2) \<Rightarrow> (None, rmtree fs2 W)))))"

section \<open>The download worker\<close>

definition finish_normally :: "job \<Rightarrow> job" where
  \<comment> \<open>the "normal completion" lines of \<open>_download_worker\<close>\<close>
  "finish_normally job =
     (let j1 = dset ''status''
                 (PStr (if \<not> truthy (dget job ''_cancel'') then ''done'' else ''canceled'')) job;
          j2 = dset ''message''
                 (PStr (if dget j1 ''status'' = PStr ''done'' then ''Completed'' else ''Canceled'')) j1;
          j3 = (if dget j2 ''status'' = PStr ''done''
                then dset ''percent'' (PStr ''100%'') (dset ''progress'' (PFloat 100) j2)
                else j2)
      in dset ''speed'' (PStr []) (dset ''eta'' (PStr []) j3))"

definition worker_try ::
  "env \<Rightarrow> string \<Rightarrow> string \<Rightarrow> string \<Rightarrow> int option \<Rightarrow> string \<Rightarrow> world
     \<Rightarrow> exn option \<times> string option \<times> string option \<times> world" where
  \<comment> \<open>the \<open>try\<close> block: the exception it ends with, if any, and \<open>final_dir\<close> and
      \<open>work_dir\<close> as they are then\<close>
  "worker_try env job_id url media_type height root_dir w =
     (case probe_url_meta env url of
        Inl e \<Rightarrow> (Some e, None, None, w)
      | Inr m \<Rightarrow>
          (let w1 = upd_job job_id
                      (\<lambda>j. dset ''message'' (PStr (''Starting'' @ ellipsis))
                              (dset ''status'' (PStr ''running'')
                                 (dset ''title'' (PStr (meta_title m))
                                    (dset ''kind'' (PStr (meta_kind m)) j)))) w;
               final_dir =
                 (if meta_kind m = ''playlist''
                  then path_join root_dir
                         (safe_folder (if meta_title m \<noteq> [] then meta_title m else ''Playlist''))
                  else root_dir)
           in case makedirs (work_cwd env) (disk w1) final_dir of
                (Inl e, fs1) \<Rightarrow> (Some e, Some final_dir, None, w1\<lparr>disk := fs1\<rparr>)
              | (Inr p, fs1) \<Rightarrow>
                  (let w2 = upd_job job_id (dset ''finalDir'' (PStr final_dir)) (w1\<lparr>disk := fs1\<rparr>);
                       work_dir = path_join (path_join root_dir ''_tmp'') job_id
                   in case makedirs (work_cwd env) (disk w2) work_dir of
                        (Inl e, fs2) \<Rightarrow> (Some e, Some final_dir, Some work_dir, w2\<lparr>disk := fs2\<rparr>)
                      | (Inr q, fs2) \<Rightarrow>
                          (let w3 = w2\<lparr>disk := fs2\<rparr>;
                               selected_urls =
                                 (case dget (the_job w3 job_id) ''selectedUrls'' of
                                    PList us \<Rightarrow> us | _ \<Rightarrow> []);
                               urls = (if meta_kind m = ''playlist'' \<and> selected_urls \<noteq> []
                                       then selected_urls else [url])
                           in case download_urls env job_id urls media_type height work_dir w3 of
                                (Some e, w4) \<Rightarrow> (Some e, Some final_dir, Some work_dir, w4)
                              | (None, w4) \<Rightarrow>
                                  (None, Some final_dir, Some work_dir,
                                   upd_job job_id finish_normally w4)))))"

definition worker_except :: "exn \<Rightarrow> job \<Rightarrow> job" where
  \<comment> \<open>the three \<open>except\<close> clauses\<close>
  "worker_except e job =
     (case e of
        KeyboardInterrupt m \<Rightarrow>
          dset ''message'' (PStr ''Canceled'') (dset ''status'' (PStr ''canceled'') job)
      | DownloadError m \<Rightarrow>
          dset ''message'' (PStr (''DownloadError: '' @ m)) (dset ''status'' (PStr ''error'') job)
      | OtherException m \<Rightarrow>
          dset ''message'' (PStr (''Error: '' @ m)) (dset ''status'' (PStr ''error'') job))"

definition worker_finally :: "job \<Rightarrow> job" where
  "worker_finally job =
     (if dget job ''status'' = PStr ''canceled''
      then dset ''message''
             (PStr (''Canceled '' @ emdash @ '' completed items saved to destination.'')) job
      else job)"

definition str_field :: "job \<Rightarrow> string \<Rightarrow> string option" where
  \<comment> \<open>\<open>job[k]\<close> where a string is stored\<close>
  "str_field job k = (case map_of job k of Some (PStr s) \<Rightarrow> Some s | _ \<Rightarrow> None)"

definition download_worker :: "env \<Rightarrow> string \<Rightarrow> world \<Rightarrow> world" where
  \<comment> \<open>the thread of \<open>create_job\<close>, run to its end. A job that is missing, or whose
      \<open>url\<close> or \<open>mediaType\<close> is missing, ends the thread with a KeyError before the
      \<open>try\<close>; the values read are those \<open>create_job\<close> stores (strings, an int or
      \<open>None\<close> for the height)\<close>
  "download_worker env job_id w =
     (case JOBS w job_id of
        None \<Rightarrow> w
      | Some job \<Rightarrow>
          (case (str_field job ''url'', str_field job ''mediaType'') of
             (Some url, Some media_type) \<Rightarrow>
               (let height = (case dget job ''videoHeight'' of PInt h \<Rightarrow> Some h | _ \<Rightarrow> None);
                    root_dir = (case map_of job ''rootDir'' of
                                  Some (PStr r) \<Rightarrow> r | _ \<Rightarrow> storage_dir env)
                in case worker_try env job_id url media_type height root_dir w of
                     (r, final_dir, work_dir, w1) \<Rightarrow>
                       (let w2 = (case r of None \<Rightarrow> w1
                                  | Some e \<Rightarrow> upd_job job_id (worker_except e) w1);
                            w3 = w2\<lparr>disk :=
                                   snd (move_completed_to_final (work_cwd env) (disk w2)
                                          work_dir final_dir)\<rparr>
                        in upd_job job_id worker_finally w3))
           | _ \<Rightarrow> w))"

section \<open>Example inputs\<close>

definition done_job :: job where
  \<comment> \<open>a job that has completed\<close>
  "done_job = dset ''message'' (PStr ''Completed'')
                (dset ''status'' (PStr ''done'')
                   (new_job ''j1'' ''/srv/media'' 0 ''https://example/video1'' ''video'' None None None))"

definition fresh_job :: job where
  \<comment> \<open>a job as \<open>create_job\<close> stores it\<close>
  "fresh_job = new_job ''j1'' ''/srv/media'' 0 ''https://example/video1'' ''video'' None None None"

definition env_with ::
  "(string \<Rightarrow> exn + info option) \<Rightarrow> (nat \<Rightarrow> string \<Rightarrow> string \<Rightarrow> ydl_run) \<Rightarrow> env" where
  \<comment> \<open>an environment around a given probe and a given downloader; the float formats
      are as Python's at 0, the only number the examples format\<close>
  "env_with flat dl =
     \<lparr>fmt_1f = (\<lambda>x. ''0.0''), fmt_2f = (\<lambda>x. ''0.00''),
      user_homes = (\<lambda>n. if n = [] then Some ''/home/u'' else None),
      work_cwd = [],
      storage_dir = ''/app/storage'',
      default_vid_bucket = ''/home/u/Downloads/Yt_videos'',
      default_aud_bucket = ''/home/u/Downloads/Yt_audios'',
      extract_flat = flat,
      extract_title = (\<lambda>u. Inr (Some ''Clip'')),
      ydl_download = dl\<rparr>"

definition video_info :: "string \<Rightarrow> exn + info option" where
  "video_info url = Inr (Some \<lparr>info_entries = False, info_title = Some ''Clip''\<rparr>)"


definition hook_no_total :: hook_dict where
  \<comment> \<open>a "downloading" event without a total\<close>
  "hook_no_total =
     \<lparr>d_status = Some ''downloading'', d_total_bytes = None, d_total_bytes_estimate = None,
      d_downloaded_bytes = Some 10, d_speed = None, d_speed_str = Some ''1.0MiB/s'',
      d_eta = Some 5, d_eta_str = None, d_filename = None\<rparr>"


definition dl_ok :: "nat \<Rightarrow> string \<Rightarrow> string \<Rightarrow> ydl_run" where
  \<comment> \<open>every download succeeds and writes one file\<close>
  "dl_ok n url fmt = \<lparr>run_steps = [WriteFile [''Clip.mp4''] url], run_outcome = None\<rparr>"

definition dl_fails_after_progress :: "nat \<Rightarrow> string \<Rightarrow> string \<Rightarrow> ydl_run" where
  \<comment> \<open>the download reports progress, then fails with a network error\<close>
  "dl_fails_after_progress n url fmt =
     \<lparr>run_steps = [Hook hook_no_total], run_outcome = Some (DownloadError ''network unreachable'')\<rparr>"

definition dl_format_missing :: "nat \<Rightarrow> string \<Rightarrow> string \<Rightarrow> ydl_run" where
  \<comment> \<open>the requested height is not offered, the best format is\<close>
  "dl_format_missing n url fmt =
     (if fmt = ''bv*+ba/b'' then \<lparr>run_steps = [WriteFile [''Clip.mp4''] url], run_outcome = None\<rparr>
      else \<lparr>run_steps = [],
            run_outcome = Some (DownloadError ''ERROR: Requested format is not available'')\<rparr>)"

definition empty_world :: world where
  "empty_world = \<lparr>JOBS = Map.empty, disk = [], attempts = [], started = []\<rparr>"

definition format_unavailable :: "exn \<Rightarrow> bool" where
  \<comment> \<open>the test of \<open>_try_download_one\<close>: a DownloadError whose text holds
      \<open>Requested format is not available\<close>\<close>
  "format_unavailable e =
     (case e of DownloadError m \<Rightarrow> contains ''Requested format is not available'' m | _ \<Rightarrow> False)"


definition dl_canceled_mid_transfer :: "nat \<Rightarrow> string \<Rightarrow> string \<Rightarrow> ydl_run" where
  \<comment> \<open>progress is reported, a cancel request arrives, the next hook call raises\<close>
  "dl_canceled_mid_transfer n url fmt =
     \<lparr>run_steps = [Hook hook_no_total, CancelRequest, Hook hook_no_total], run_outcome = None\<rparr>"

definition video_root :: filesystem where
  "video_root = [([''home''], Dir), ([''home'', ''u''], Dir), ([''home'', ''u'', ''Downloads''], Dir),
     ([''home'', ''u'', ''Downloads'', ''Yt_videos''], Dir)]"

definition created_world :: world where
  "created_world = \<lparr>JOBS = [''j1'' \<mapsto> new_job ''j1'' ''/home/u/Downloads/Yt_videos'' 0
                              ''https://example/video1'' ''video'' None None None],
                    disk = video_root, attempts = [], started = []\<rparr>"

definition staged_root :: filesystem where
  "staged_root = video_root @ [([''home'', ''u'', ''Downloads'', ''Yt_videos'', ''_tmp''], Dir),
       ([''home'', ''u'', ''Downloads'', ''Yt_videos'', ''_tmp'', ''j1''], Dir)]"

definition job_after :: "env \<Rightarrow> job" where
  \<comment> \<open>the record of job \<open>j1\<close> once its worker has ended, the job having been created
      in an empty world for a single video with no height\<close>
  "job_after env =
     the_job (download_worker env ''j1''
                (snd (create_job env ''j1'' 0 empty_world ''https://example/video1'' ''video''
                        None None None None))) ''j1''"


section \<open>Snapshots\<close>





section \<open>Properties\<close>

subsection \<open>safe_folder\<close>







subsection \<open>_format_string\<close>

text \<open>
  C10. For every height argument (\<open>None\<close> or any integer), \<open>_format_string("audio", h)\<close>
  is the constant \<open>bestaudio/best\<close>: the requested height has no effect on audio jobs.
\<close>

theorem format_string_audio_constant:
  "format_string ''audio'' h = ''bestaudio/best''"
  by (simp add: format_string_def)

subsection \<open>cancel_job\<close>

lemma dget_dset: "dget (dset k v j) k' = (if k' = k then v else dget j k')"
  by (simp add: dget_def dset_def update_conv')

lemma map_of_dset: "map_of (dset k v j) k' = (if k' = k then Some v else map_of j k')"
  by (simp add: dset_def update_conv')

text \<open>
  C1, as stated, fails: \<open>cancel_job\<close> on a job whose status is \<open>done\<close> returns \<open>True\<close> and
  overwrites its message with \<open>Cancel requested...\<close>, so the record is changed.
\<close>

theorem cancel_terminal_job_changes_message:
  "dget done_job ''status'' = PStr ''done''
   \<and> dget done_job ''message'' = PStr ''Completed''
   \<and> fst (cancel_job ''j1'' [''j1'' \<mapsto> done_job]) = True
   \<and> dget (the (get_job ''j1'' (snd (cancel_job ''j1'' [''j1'' \<mapsto> done_job])))) ''message''
       = PStr (''Cancel requested'' @ ellipsis)
   \<and> get_job ''j1'' (snd (cancel_job ''j1'' [''j1'' \<mapsto> done_job])) \<noteq> Some done_job"
  by (simp add: done_job_def new_job_def cancel_job_def get_job_def dset_def dget_def ellipsis_def)

text \<open>
  C1, amended. \<open>cancel_job\<close> on a job whose status is terminal (\<open>done\<close>, \<open>error\<close> or
  \<open>canceled\<close>) returns \<open>True\<close> without an error and leaves the status, and every key other
  than \<open>_cancel\<close> and \<open>message\<close>, as it was; it sets \<open>_cancel\<close> to \<open>True\<close> and overwrites
  \<open>message\<close> with \<open>Cancel requested...\<close>.
\<close>

theorem cancel_job_frame:
  assumes "J job_id = Some job" and "job \<noteq> []"
    and "dget job ''status'' \<in> {PStr ''done'', PStr ''error'', PStr ''canceled''}"
  shows "\<exists>job'. cancel_job job_id J = (True, J(job_id \<mapsto> job'))
           \<and> dget job' ''status'' = dget job ''status''
           \<and> (\<forall>k. k \<noteq> ''_cancel'' \<and> k \<noteq> ''message'' \<longrightarrow> map_of job' k = map_of job k)
           \<and> dget job' ''_cancel'' = PBool True
           \<and> dget job' ''message'' = PStr (''Cancel requested'' @ ellipsis)"
proof (intro exI conjI)
  show "cancel_job job_id J
          = (True, J(job_id \<mapsto> dset ''message'' (PStr (''Cancel requested'' @ ellipsis))
                                   (dset ''_cancel'' (PBool True) job)))"
    using assms by (simp add: cancel_job_def)
qed (simp_all add: dget_dset map_of_dset)

theorem cancel_job_frame_witness:
  "\<exists>job'. cancel_job ''j1'' [''j1'' \<mapsto> done_job] = (True, [''j1'' \<mapsto> job'])
           \<and> dget job' ''status'' = PStr ''done''
           \<and> dget job' ''_cancel'' = PBool True"
proof -
  have a: "[''j1'' \<mapsto> done_job] ''j1'' = Some done_job" by simp
  have b: "done_job \<noteq> []" by (simp add: done_job_def new_job_def dset_def)
  have c: "dget done_job ''status'' = PStr ''done''"
    by (simp add: done_job_def new_job_def dset_def dget_def)
  have d: "dget done_job ''status'' \<in> {PStr ''done'', PStr ''error'', PStr ''canceled''}"
    using c by simp
  from cancel_job_frame [of "[''j1'' \<mapsto> done_job]" "''j1''" done_job, OF a b d] c
  show ?thesis by auto
qed

subsection \<open>_progress_hook\<close>







subsection \<open>_try_download_one\<close>

lemma exec_steps_attempts:
  "attempts (snd (exec_steps env job_id wd ss out w)) = attempts w"
proof (induction ss arbitrary: w)
  case Nil
  show ?case by simp
next
  case (Cons s ss)
  show ?case
  proof (cases s)
    case (Hook d)
    then show ?thesis using Cons.IH by (simp split: prod.splits option.splits)
  next
    case CancelRequest
    then show ?thesis using Cons.IH by simp
  next
    case (WriteFile rel c)
    then show ?thesis using Cons.IH by simp
  qed
qed

lemma ydl_call_attempts:
  "attempts (snd (ydl_call env job_id work_dir url fmt pp w)) = attempts w @ [(url, fmt, pp)]"
  by (simp add: ydl_call_def Let_def exec_steps_attempts)

text \<open>
  C7. \<open>_try_download_one\<close> calls the downloader once at the requested format. If that
  call returns, nothing more is tried. If it raises a DownloadError saying that the
  requested format is not available, the downloader is called exactly once more, at the
  best format of the media type, and the item ends as that second call ends (an error
  only if the second call fails too). Any other exception of the first call is raised as
  it is, with no second call.
\<close>

theorem try_download_one_fallback:
  fixes env job_id work_dir url media_type height pp w
  defines "first \<equiv> ydl_call env job_id work_dir url (format_string media_type height) pp w"
  defines "r \<equiv> try_download_one env url media_type height pp job_id work_dir w"
  shows "(fst first = None \<longrightarrow>
            r = first
            \<and> attempts (snd r) = attempts w @ [(url, format_string media_type height, pp)])
       \<and> (\<forall>e. fst first = Some e \<and> format_unavailable e \<longrightarrow>
            r = ydl_call env job_id work_dir url (format_string media_type None) pp (snd first)
            \<and> attempts (snd r) = attempts w @ [(url, format_string media_type height, pp),
                                              (url, format_string media_type None, pp)])
       \<and> (\<forall>e. fst first = Some e \<and> \<not> format_unavailable e \<longrightarrow>
            r = first \<and> fst r = Some e
            \<and> attempts (snd r) = attempts w @ [(url, format_string media_type height, pp)])"
proof -
  have a: "attempts (snd first) = attempts w @ [(url, format_string media_type height, pp)]"
    by (simp add: first_def ydl_call_attempts)
  show ?thesis
  proof (cases first)
    case (Pair x w1)
    show ?thesis
    proof (cases x)
      case None
      with Pair a show ?thesis
        by (simp add: r_def try_download_one_def first_def [symmetric])
    next
      case (Some e)
      show ?thesis
      proof (cases "format_unavailable e")
        case True
        then obtain m where "e = DownloadError m" "contains ''Requested format is not available'' m"
          by (auto simp: format_unavailable_def split: exn.splits)
        with Pair Some a True show ?thesis
          by (simp add: r_def try_download_one_def first_def [symmetric] ydl_call_attempts)
      next
        case False
        with Pair Some a show ?thesis
          by (cases e) (simp_all add: r_def try_download_one_def first_def [symmetric]
                          format_unavailable_def)
      qed
    qed
  qed
qed


theorem try_download_one_fallback_witness:
  "attempts (snd (try_download_one (env_with video_info dl_format_missing) ''https://example/video1''
                    ''video'' (Some 720) None ''j1'' ''/srv/media/_tmp/j1''
                    (empty_world\<lparr>JOBS := [''j1'' \<mapsto> fresh_job]\<rparr>)))
     = [(''https://example/video1'', ''bv*[height=720]+ba/b[height=720]'', None),
        (''https://example/video1'', ''bv*+ba/b'', None)]
   \<and> fst (try_download_one (env_with video_info dl_format_missing) ''https://example/video1''
                    ''video'' (Some 720) None ''j1'' ''/srv/media/_tmp/j1''
                    (empty_world\<lparr>JOBS := [''j1'' \<mapsto> fresh_job]\<rparr>)) = None"
proof -
  let ?E = "env_with video_info dl_format_missing"
  let ?W = "empty_world\<lparr>JOBS := [''j1'' \<mapsto> fresh_job]\<rparr>"
  let ?e = "DownloadError ''ERROR: Requested format is not available''"
  have f: "format_string ''video'' (Some 720) = ''bv*[height=720]+ba/b[height=720]''"
    by code_simp
  have g: "format_string ''video'' None = ''bv*+ba/b''"
    by (simp add: format_string_def)
  have 1: "fst (ydl_call ?E ''j1'' ''/srv/media/_tmp/j1'' ''https://example/video1''
                 (format_string ''video'' (Some 720)) None ?W) = Some ?e"
    by (simp add: f ydl_call_def env_with_def dl_format_missing_def empty_world_def)
  have 2: "format_unavailable ?e"
    by (simp add: format_unavailable_def)
  from try_download_one_fallback [of ?E "''j1''" "''/srv/media/_tmp/j1''" "''https://example/video1''"
      "''video''" "Some 720" None ?W] 1 2
  have r: "try_download_one ?E ''https://example/video1'' ''video'' (Some 720) None ''j1''
             ''/srv/media/_tmp/j1'' ?W
           = ydl_call ?E ''j1'' ''/srv/media/_tmp/j1'' ''https://example/video1''
               (format_string ''video'' None) None
               (snd (ydl_call ?E ''j1'' ''/srv/media/_tmp/j1'' ''https://example/video1''
                       (format_string ''video'' (Some 720)) None ?W))"
    and a: "attempts (snd (try_download_one ?E ''https://example/video1'' ''video'' (Some 720) None
                            ''j1'' ''/srv/media/_tmp/j1'' ?W))
            = attempts ?W @ [(''https://example/video1'', format_string ''video'' (Some 720), None),
                             (''https://example/video1'', format_string ''video'' None, None)]"
    by blast+
  have 3: "fst (ydl_call ?E ''j1'' ''/srv/media/_tmp/j1'' ''https://example/video1''
               (format_string ''video'' None) None
               (snd (ydl_call ?E ''j1'' ''/srv/media/_tmp/j1'' ''https://example/video1''
                       (format_string ''video'' (Some 720)) None ?W))) = None"
    by (simp add: f g ydl_call_def env_with_def dl_format_missing_def empty_world_def)
  from r a 3 show ?thesis by (simp add: f g empty_world_def)
qed


subsection \<open>_resolve_root_dir\<close>




subsection \<open>The worker on three single-video jobs\<close>

lemma create_example:
  "create_job (env_with video_info dl) ''j1'' 0 empty_world ''https://example/video1'' ''video''
     None None None None = (Inr ''j1'', created_world)"
  by (simp add: create_job_def resolve_root_dir_def env_with_def empty_world_def makedirs_def
        isabs_def startswith_def fs_lookup_def put_def created_world_def video_root_def)


lemma probe_example:
  "probe_url_meta (env_with video_info dl) url = Inr \<lparr>meta_kind = ''video'', meta_title = ''Clip''\<rparr>"
  by (simp add: probe_url_meta_def env_with_def video_info_def)

lemma makedirs_final:
  "makedirs [] video_root ''/home/u/Downloads/Yt_videos''
     = (Inr [''home'', ''u'', ''Downloads'', ''Yt_videos''], video_root)"
  by (simp add: makedirs_def isabs_def startswith_def fs_lookup_def video_root_def)

lemma work_dir_example:
  "path_join (path_join ''/home/u/Downloads/Yt_videos'' ''_tmp'') ''j1''
     = ''/home/u/Downloads/Yt_videos/_tmp/j1''"
  by (simp add: path_join_def startswith_def endswith_def)

lemma makedirs_work:
  "makedirs [] video_root ''/home/u/Downloads/Yt_videos/_tmp/j1''
     = (Inr [''home'', ''u'', ''Downloads'', ''Yt_videos'', ''_tmp'', ''j1''], staged_root)"
  by (simp add: makedirs_def isabs_def startswith_def fs_lookup_def put_def video_root_def
        staged_root_def)

lemma makedirs_work_again:
  "makedirs [] staged_root ''/home/u/Downloads/Yt_videos/_tmp/j1''
     = (Inr [''home'', ''u'', ''Downloads'', ''Yt_videos'', ''_tmp'', ''j1''], staged_root)"
  by (simp add: makedirs_def isabs_def startswith_def fs_lookup_def put_def video_root_def
        staged_root_def)

lemma resolve_work:
  "resolve [] staged_root ''/home/u/Downloads/Yt_videos/_tmp/j1''
     = Some [''home'', ''u'', ''Downloads'', ''Yt_videos'', ''_tmp'', ''j1'']"
  by (simp add: resolve_def isabs_def startswith_def is_dir_def fs_lookup_def video_root_def
        staged_root_def)

lemma str_nat_1: "str_nat (Suc 0) = ''1''" "str_nat 5 = ''5''"
  by code_simp+


lemma env_with_sel:
  "fmt_1f (env_with flat dl) x = ''0.0''"
  "work_cwd (env_with flat dl) = []"
  "storage_dir (env_with flat dl) = ''/app/storage''"
  "extract_flat (env_with flat dl) = flat"
  "extract_title (env_with flat dl) u = Inr (Some ''Clip'')"
  "ydl_download (env_with flat dl) = dl"
  by (simp_all add: env_with_def)


lemmas worker_eval =
  download_worker_def worker_try_def probe_example created_world_def upd_job_def makedirs_final
  work_dir_example makedirs_work makedirs_work_again the_job_def download_urls_def ydl_call_def
  try_download_one_def format_string_def resolve_work env_with_sel progress_hook_def
  hook_body_def hook_no_total_def num_or_def float_of_def humanize_bps_def strip_ansi_def
  humanize_seconds_def str_nat_1 dget_def dset_def new_job_def Let_def worker_except_def
  worker_finally_def finish_normally_def cancel_job_def ellipsis_def emdash_def str_field_def

lemma worker_fails_job:
  "the_job (download_worker (env_with video_info dl_fails_after_progress) ''j1'' created_world) ''j1''
   = [(''jobId'', PStr ''j1''), (''url'', PStr ''https://example/video1''),
      (''mediaType'', PStr ''video''), (''videoHeight'', PNone),
      (''audioBitrate'', PStr ''best''), (''selectedUrls'', PList []),
      (''rootDir'', PStr ''/home/u/Downloads/Yt_videos''),
      (''finalDir'', PStr ''/home/u/Downloads/Yt_videos''),
      (''status'', PStr ''error''), (''progress'', PFloat 0),
      (''percent'', PStr ''0.0%''), (''eta'', PStr ''5s''),
      (''speed'', PStr ''1.0MiB/s''),
      (''message'', PStr ''DownloadError: network unreachable''),
      (''_cancel'', PBool False), (''kind'', PStr ''video''),
      (''title'', PStr ''Clip''), (''currentItem'', PInt 1),
      (''totalItems'', PInt 1), (''currentTitle'', PStr ''Clip''),
      (''created'', PInt 0)]"
  by (simp add: worker_eval dl_fails_after_progress_def)

lemma worker_canceled_job:
  "the_job (download_worker (env_with video_info dl_canceled_mid_transfer) ''j1'' created_world) ''j1''
   = [(''jobId'', PStr ''j1''), (''url'', PStr ''https://example/video1''),
      (''mediaType'', PStr ''video''), (''videoHeight'', PNone),
      (''audioBitrate'', PStr ''best''), (''selectedUrls'', PList []),
      (''rootDir'', PStr ''/home/u/Downloads/Yt_videos''),
      (''finalDir'', PStr ''/home/u/Downloads/Yt_videos''),
      (''status'', PStr ''canceled''), (''progress'', PFloat 0),
      (''percent'', PStr ''0.0%''), (''eta'', PStr ''5s''),
      (''speed'', PStr ''1.0MiB/s''),
      (''message'', PStr (''Canceled '' @ emdash @ '' completed items saved to destination.'')),
      (''_cancel'', PBool True), (''kind'', PStr ''video''),
      (''title'', PStr ''Clip''), (''currentItem'', PInt 1),
      (''totalItems'', PInt 1), (''currentTitle'', PStr ''Clip''),
      (''created'', PInt 0)]"
  by (simp add: worker_eval dl_canceled_mid_transfer_def)

lemma worker_ok_job:
  "the_job (download_worker (env_with video_info dl_ok) ''j1'' created_world) ''j1''
   = [(''jobId'', PStr ''j1''), (''url'', PStr ''https://example/video1''),
      (''mediaType'', PStr ''video''), (''videoHeight'', PNone),
      (''audioBitrate'', PStr ''best''), (''selectedUrls'', PList []),
      (''rootDir'', PStr ''/home/u/Downloads/Yt_videos''),
      (''finalDir'', PStr ''/home/u/Downloads/Yt_videos''),
      (''status'', PStr ''done''), (''progress'', PFloat 100),
      (''percent'', PStr ''100%''), (''eta'', PStr []),
      (''speed'', PStr []),
      (''message'', PStr ''Completed''),
      (''_cancel'', PBool False), (''kind'', PStr ''video''),
      (''title'', PStr ''Clip''), (''currentItem'', PInt 1),
      (''totalItems'', PInt 1), (''currentTitle'', PStr ''Clip''),
      (''created'', PInt 0)]"
  by (simp add: worker_eval dl_ok_def)

text \<open>
  C3. The claim is that every terminal transition clears \<open>speed\<close> and \<open>eta\<close>. The
  worker does so on normal completion only. Here a download reports progress and then
  fails, or is canceled from the progress hook: the job ends \<open>error\<close>, respectively
  \<open>canceled\<close>, with the \<open>speed\<close> and \<open>eta\<close> of the last progress event still in
  the record. On the job that completes they are empty.
\<close>

theorem worker_error_keeps_speed_eta:
  "dget (job_after (env_with video_info dl_fails_after_progress)) ''status'' = PStr ''error''
   \<and> dget (job_after (env_with video_info dl_fails_after_progress)) ''speed'' = PStr ''1.0MiB/s''
   \<and> dget (job_after (env_with video_info dl_fails_after_progress)) ''eta'' = PStr ''5s''
   \<and> dget (job_after (env_with video_info dl_canceled_mid_transfer)) ''status'' = PStr ''canceled''
   \<and> dget (job_after (env_with video_info dl_canceled_mid_transfer)) ''speed'' = PStr ''1.0MiB/s''
   \<and> dget (job_after (env_with video_info dl_canceled_mid_transfer)) ''eta'' = PStr ''5s''
   \<and> dget (job_after (env_with video_info dl_ok)) ''status'' = PStr ''done''
   \<and> dget (job_after (env_with video_info dl_ok)) ''speed'' = PStr []
   \<and> dget (job_after (env_with video_info dl_ok)) ''eta'' = PStr []"
  by (simp add: job_after_def create_example worker_fails_job worker_canceled_job worker_ok_job
        dget_def)

subsection \<open>The keys of a job\<close>




























subsection \<open>The order of the items\<close>




























end
